theory Spec2Isabelle
  imports Main
begin

section \<open>Data model (data_types.py)\<close>

text \<open>
  Python strings are modelled as HOL strings; a \<^typ>\<open>char\<close> stands for the code point
  of the same number, so the texts of the model are the Python strings over the code
  points below 256.
\<close>

record ParsedHeader =
  pass_name :: string
  original_line :: string
  line_number :: nat
  dump_type :: string
  target :: string

text \<open>\<open>pass_name\<close> alone names the field of \<open>PassDump\<close> from here on.\<close>

record PassDump =
  pass_name :: string
  pass_index :: nat
  file_path :: string

record ComparisonConfig =
  ignore_whitespace :: bool
  ignore_empty_lines :: bool
  ignore_temp_vars :: bool
  ignore_labels :: bool
  ignore_metadata :: bool
  ignore_debug_info :: bool
  ignore_comments :: bool
  verbose :: bool
  quiet :: bool
  excluded_legacy_passes :: "string list"
  excluded_npm_passes :: "string list"

text \<open>The defaults of the dataclass, with the two lists set by \<open>__post_init__\<close>.\<close>

definition default_config :: ComparisonConfig where
  "default_config =
     \<lparr>ignore_whitespace = True, ignore_empty_lines = True, ignore_temp_vars = True,
      ignore_labels = True, ignore_metadata = True, ignore_debug_info = True,
      ignore_comments = False, verbose = False, quiet = False,
      excluded_legacy_passes = [], excluded_npm_passes = []\<rparr>"

section \<open>Character classes and string operations of Python\<close>

text \<open>
  The classes of the patterns. \<open>[0-9]\<close>, \<open>[a-zA-Z_]\<close> and \<open>[a-zA-Z0-9_]\<close> are ASCII
  ranges; \<open>\s\<close> and \<open>str.strip\<close> use \<open>str.isspace\<close>, and \<open>\w\<close> (inside \<open>\b\<close>) is
  \<open>str.isalnum\<close> or an underscore, both given here for the code points below 256.
\<close>

definition is_digit :: "char \<Rightarrow> bool" where
  "is_digit c = (48 \<le> (of_char c :: nat) \<and> (of_char c :: nat) \<le> 57)"

definition is_alpha_us :: "char \<Rightarrow> bool" where
  "is_alpha_us c =
     (let n = (of_char c :: nat)
      in (65 \<le> n \<and> n \<le> 90) \<or> (97 \<le> n \<and> n \<le> 122) \<or> n = 95)"

definition is_alnum_us :: "char \<Rightarrow> bool" where
  "is_alnum_us c = (is_alpha_us c \<or> is_digit c)"

definition is_space :: "char \<Rightarrow> bool" where
  "is_space c =
     (let n = (of_char c :: nat)
      in (9 \<le> n \<and> n \<le> 13) \<or> (28 \<le> n \<and> n \<le> 32) \<or> n = 133 \<or> n = 160)"

definition is_word :: "char \<Rightarrow> bool" where
  "is_word c =
     (let n = (of_char c :: nat)
      in is_alnum_us c \<or> n = 170 \<or> n = 178 \<or> n = 179 \<or> n = 181 \<or> n = 185 \<or> n = 186
         \<or> (188 \<le> n \<and> n \<le> 190) \<or> (192 \<le> n \<and> n \<le> 214) \<or> (216 \<le> n \<and> n \<le> 246)
         \<or> 248 \<le> n)"

definition lstrip :: "string \<Rightarrow> string" where
  "lstrip s = dropWhile is_space s"

definition rstrip :: "string \<Rightarrow> string" where
  "rstrip s = rev (dropWhile is_space (rev s))"

definition strip :: "string \<Rightarrow> string" where
  "strip s = rstrip (lstrip s)"

text \<open>\<open>s.rstrip(':')\<close> and \<open>s.strip('_')\<close>: stripping one given character.\<close>

definition rstrip_char :: "char \<Rightarrow> string \<Rightarrow> string" where
  "rstrip_char d s = rev (dropWhile (\<lambda>c. c = d) (rev s))"

definition strip_char :: "char \<Rightarrow> string \<Rightarrow> string" where
  "strip_char d s = rstrip_char d (dropWhile (\<lambda>c. c = d) s)"

text \<open>\<open>s.split(d)\<close> for a one-character separator, and \<open>'\n'.join\<close>.\<close>

fun split_on :: "char \<Rightarrow> string \<Rightarrow> string list" where
  "split_on d [] = [[]]"
| "split_on d (c # cs) =
     (if c = d then [] # split_on d cs
      else case split_on d cs of [] \<Rightarrow> [[c]] | l # ls \<Rightarrow> (c # l) # ls)"

fun join_newline :: "string list \<Rightarrow> string" where
  "join_newline [] = []"
| "join_newline [l] = l"
| "join_newline (l # ls) = l @ CHR 0x0A # join_newline ls"

text \<open>The decimal digits of a counter, as an f-string prints it.\<close>

function str_of_nat :: "nat \<Rightarrow> string" where
  "str_of_nat n =
     (if n < 10 then [char_of (48 + n)] else str_of_nat (n div 10) @ [char_of (48 + n mod 10)])"
  by pat_completeness auto
termination
  by (relation "measure id") auto

section \<open>Normalization engine (normalizer.py)\<close>

text \<open>
  The patterns are applied to single lines, which hold no newline (they come from
  \<open>split('\n')\<close>); there \<open>.\<close> matches every character and \<open>$\<close> only the end.

  \<open>metadata_pattern.match\<close>, pattern \<open>^!.*$\<close>: the string starts with an exclamation mark.
\<close>

definition metadata_match :: "string \<Rightarrow> bool" where
  "metadata_match s = (case s of [] \<Rightarrow> False | c # _ \<Rightarrow> c = CHR ''!'')"

text \<open>\<open>comment_pattern.sub('', line)\<close>, pattern \<open>;.*$\<close>: cut at the first semicolon.\<close>

definition remove_comments :: "string \<Rightarrow> string" where
  "remove_comments line = takeWhile (\<lambda>c. c \<noteq> CHR '';'') line"

text \<open>
  \<open>debug_info_pattern\<close>, \<open>, !dbg ![0-9]+\<close>, tried at the head of a string: the rest after
  the match, which takes all the digits that follow.
\<close>

definition debug_info_match :: "string \<Rightarrow> string option" where
  "debug_info_match s =
     (if take 8 s = '', !dbg !''
      then case drop 8 s of
             [] \<Rightarrow> None
           | d # r \<Rightarrow> if is_digit d then Some (dropWhile is_digit r) else None
      else None)"

text \<open>\<open>debug_info_pattern.sub('', line)\<close>: every match, left to right, is removed.\<close>

function remove_debug_info :: "string \<Rightarrow> string" where
  "remove_debug_info [] = []"
| "remove_debug_info (c # cs) =
     (case debug_info_match (c # cs) of
        Some rest \<Rightarrow> remove_debug_info rest
      | None \<Rightarrow> c # remove_debug_info cs)"
  by pat_completeness auto
termination
proof (relation "measure length")
  fix c cs rest
  assume "debug_info_match (c # cs) = Some rest"
  then obtain d r where "drop 8 (c # cs) = d # r" "rest = dropWhile is_digit r"
    by (auto simp: debug_info_match_def split: if_splits list.splits)
  then have "length rest \<le> length r" "Suc (length r) = length (drop 8 (c # cs))"
    by (simp_all add: length_dropWhile_le)
  then show "(rest, c # cs) \<in> measure length"
    by simp
qed simp_all

text \<open>
  The tail \<open>[a-zA-Z0-9_]*\.?[0-9]*\<close> that the two name patterns share, after their first
  character: the longest run of name characters, one dot if it follows, the longest run
  of digits. It returns the matched text and the rest.
\<close>

definition name_tail :: "string \<Rightarrow> string \<times> string" where
  "name_tail s =
     (let w = takeWhile is_alnum_us s; r1 = dropWhile is_alnum_us s
      in case r1 of
           [] \<Rightarrow> (w, [])
         | c # r2 \<Rightarrow>
             if c = CHR ''.''
             then (w @ c # takeWhile is_digit r2, dropWhile is_digit r2)
             else (w, r1))"

text \<open>
  \<open>temp_var_pattern\<close>, \<open>%[a-zA-Z_][a-zA-Z0-9_]*\.?[0-9]*\<close>, tried at the head of a
  string: the matched text and the rest. Every part is greedy and nothing follows the
  pattern, so the longest choice is the match.
\<close>

definition temp_var_match :: "string \<Rightarrow> (string \<times> string) option" where
  "temp_var_match s =
     (case s of
        c0 # c1 # r \<Rightarrow>
          if c0 = CHR ''%'' \<and> is_alpha_us c1
          then (case name_tail r of (t, rest) \<Rightarrow> Some (c0 # c1 # t, rest))
          else None
      | _ \<Rightarrow> None)"

text \<open>A Python dictionary whose order of insertion matters, as keys and values in that
  order; a key is only ever added when it is absent.\<close>

type_synonym py_dict = "(string \<times> string) list"

text \<open>
  \<open>_normalize_temp_vars\<close>: \<open>temp_var_pattern.sub(replace_temp_var, line)\<close>, with the counter
  and the map that \<open>replace_temp_var\<close> updates at each match, left to right.
\<close>

function normalize_temp_vars :: "string \<Rightarrow> nat \<Rightarrow> py_dict \<Rightarrow> string \<times> nat \<times> py_dict" where
  "normalize_temp_vars [] counter var_map = ([], counter, var_map)"
| "normalize_temp_vars (c # cs) counter var_map =
     (case temp_var_match (c # cs) of
        None \<Rightarrow>
          (case normalize_temp_vars cs counter var_map of
             (out, counter', var_map') \<Rightarrow> (c # out, counter', var_map'))
      | Some (original, rest) \<Rightarrow>
          (case map_of var_map original of
             Some v \<Rightarrow>
               (case normalize_temp_vars rest counter var_map of
                  (out, counter', var_map') \<Rightarrow> (v @ out, counter', var_map'))
           | None \<Rightarrow>
               (case normalize_temp_vars rest (counter + 1)
                       (var_map @ [(original, ''%temp_'' @ str_of_nat counter)]) of
                  (out, counter', var_map') \<Rightarrow>
                    (''%temp_'' @ str_of_nat counter @ out, counter', var_map'))))"
  by pat_completeness auto
termination
proof (relation "measure (\<lambda>(s, counter, var_map). length s)")
  fix c cs and counter :: nat and var_map :: py_dict and x original rest
  assume m: "temp_var_match (c # cs) = Some x" "(original, rest) = x"
  have tail: "length (snd (name_tail r)) \<le> length r" for r
  proof (cases "dropWhile is_alnum_us r")
    case Nil
    show ?thesis by (simp add: name_tail_def Let_def Nil)
  next
    case (Cons d r2)
    have "length (dropWhile is_alnum_us r) \<le> length r"
      and "length (dropWhile is_digit r2) \<le> length r2"
      by (rule length_dropWhile_le)+
    then show ?thesis by (simp add: name_tail_def Let_def Cons)
  qed
  from m obtain c1 r where "cs = c1 # r" "rest = snd (name_tail r)"
    by (auto simp: temp_var_match_def split: list.splits if_splits prod.splits)
  with tail [of r] have "length rest < length (c # cs)"
    by simp
  then show "((rest, counter, var_map), c # cs, counter, var_map)
      \<in> measure (\<lambda>(s, counter, var_map). length s)"
    and "((rest, counter + 1, var_map @ [(original, ''%temp_'' @ str_of_nat counter)]),
          c # cs, counter, var_map) \<in> measure (\<lambda>(s, counter, var_map). length s)"
    by simp_all
qed simp_all

text \<open>
  \<open>label_pattern\<close>, \<open>^([a-zA-Z_][a-zA-Z0-9_]*\.?[0-9]*):\<close>, which matches at the start of
  the line only: group 1 and the rest after the colon. The colon has to follow the longest
  choice of the parts before it: a shorter run of name characters or of digits is followed
  by one more of them, and a dot that is not taken is followed by that dot.
\<close>

definition label_match :: "string \<Rightarrow> (string \<times> string) option" where
  "label_match s =
     (case s of
        [] \<Rightarrow> None
      | c # r \<Rightarrow>
          if is_alpha_us c
          then (case name_tail r of
                  (t, []) \<Rightarrow> None
                | (t, e # rest) \<Rightarrow> if e = CHR '':'' then Some (c # t, rest) else None)
          else None)"

text \<open>
  \<open>re.sub(rf'\b{re.escape(original)}\b', repl, s)\<close>. \<open>\b\<close> holds between a word character and
  a character that is none, the two ends of the string counting as none; \<open>prev_word\<close> tells
  whether the character before the current position is a word character. An empty
  \<open>original\<close> matches the empty string at every boundary.
\<close>

definition next_is_word :: "string \<Rightarrow> bool" where
  "next_is_word s = (case s of [] \<Rightarrow> False | c # _ \<Rightarrow> is_word c)"

definition word_match :: "string \<Rightarrow> bool \<Rightarrow> string \<Rightarrow> bool" where
  "word_match original prev_word s =
     (prev_word \<noteq> next_is_word s \<and> take (length original) s = original \<and>
      (if original = [] then prev_word else is_word (last original))
        \<noteq> next_is_word (drop (length original) s))"

function sub_word_from :: "string \<Rightarrow> string \<Rightarrow> bool \<Rightarrow> string \<Rightarrow> string" where
  "sub_word_from original repl prev_word [] =
     (if word_match original prev_word [] then repl else [])"
| "sub_word_from original repl prev_word (c # cs) =
     (if word_match original prev_word (c # cs)
      then (if original = []
            then repl @ c # sub_word_from original repl (is_word c) cs
            else repl @ sub_word_from original repl (is_word (last original))
                          (drop (length original) (c # cs)))
      else c # sub_word_from original repl (is_word c) cs)"
  by pat_completeness auto
termination
  by (relation "measure (\<lambda>(original, repl, prev_word, s). length s)") auto

definition sub_word :: "string \<Rightarrow> string \<Rightarrow> string \<Rightarrow> string" where
  "sub_word original repl s = sub_word_from original repl False s"

text \<open>
  \<open>_normalize_labels\<close>: the definition at the start of the line is renamed, then every name
  of the map, in the order of \<open>label_map.items()\<close>, is replaced in the whole line.
\<close>

definition replace_label :: "string \<Rightarrow> nat \<Rightarrow> py_dict \<Rightarrow> string \<times> nat \<times> py_dict" where
  "replace_label line counter label_map =
     (case label_match line of
        None \<Rightarrow> (line, counter, label_map)
      | Some (original, rest) \<Rightarrow>
          (case map_of label_map original of
             Some v \<Rightarrow> (v @ '':'' @ rest, counter, label_map)
           | None \<Rightarrow>
               ((''label_'' @ str_of_nat counter) @ '':'' @ rest, counter + 1,
                label_map @ [(original, ''label_'' @ str_of_nat counter)])))"

definition replace_label_references :: "py_dict \<Rightarrow> string \<Rightarrow> string" where
  "replace_label_references label_map normalized =
     foldl (\<lambda>n (original, normalized_label).
              sub_word original (rstrip_char (CHR '':'') normalized_label) n)
       normalized label_map"

definition normalize_labels :: "string \<Rightarrow> nat \<Rightarrow> py_dict \<Rightarrow> string \<times> nat \<times> py_dict" where
  "normalize_labels line counter label_map =
     (case replace_label line counter label_map of
        (normalized, counter', label_map') \<Rightarrow>
          (replace_label_references label_map' normalized, counter', label_map'))"

text \<open>\<open>_normalize_whitespace\<close>: \<open>re.sub(r'\s+', ' ', line)\<close>, then \<open>strip\<close>.\<close>

function collapse_whitespace :: "string \<Rightarrow> string" where
  "collapse_whitespace [] = []"
| "collapse_whitespace (c # cs) =
     (if is_space c then CHR '' '' # collapse_whitespace (dropWhile is_space cs)
      else c # collapse_whitespace cs)"
  by pat_completeness auto
termination
  by (relation "measure length") (auto simp: less_Suc_eq_le length_dropWhile_le)

definition normalize_whitespace :: "string \<Rightarrow> string" where
  "normalize_whitespace line = strip (collapse_whitespace line)"

text \<open>The local variables of \<open>normalize\<close>, fresh at every call.\<close>

record normalize_state =
  normalized_lines :: "string list"
  temp_var_counter :: nat
  label_counter :: nat
  temp_var_map :: py_dict
  label_map :: py_dict

definition init_normalize_state :: normalize_state where
  "init_normalize_state =
     \<lparr>normalized_lines = [], temp_var_counter = 0, label_counter = 0,
      temp_var_map = [], label_map = []\<rparr>"

text \<open>The transformations of one line, in the order of the loop body.\<close>

definition apply_comments :: "ComparisonConfig \<Rightarrow> string \<Rightarrow> string" where
  "apply_comments cfg line = (if ignore_comments cfg then remove_comments line else line)"

definition apply_debug_info :: "ComparisonConfig \<Rightarrow> string \<Rightarrow> string" where
  "apply_debug_info cfg line = (if ignore_debug_info cfg then remove_debug_info line else line)"

definition apply_labels ::
  "ComparisonConfig \<Rightarrow> string \<Rightarrow> nat \<Rightarrow> py_dict \<Rightarrow> string \<times> nat \<times> py_dict" where
  "apply_labels cfg line counter lmap =
     (if ignore_labels cfg then normalize_labels line counter lmap else (line, counter, lmap))"

definition apply_temp_vars ::
  "ComparisonConfig \<Rightarrow> string \<Rightarrow> nat \<Rightarrow> py_dict \<Rightarrow> string \<times> nat \<times> py_dict" where
  "apply_temp_vars cfg line counter vmap =
     (if ignore_temp_vars cfg then normalize_temp_vars line counter vmap
      else (line, counter, vmap))"

definition apply_whitespace :: "ComparisonConfig \<Rightarrow> string \<Rightarrow> string" where
  "apply_whitespace cfg line = (if ignore_whitespace cfg then normalize_whitespace line else line)"

text \<open>The body of the loop of \<open>normalize\<close> over the lines.\<close>

definition normalize_line :: "ComparisonConfig \<Rightarrow> normalize_state \<Rightarrow> string \<Rightarrow> normalize_state" where
  "normalize_line cfg st line =
     (if ignore_empty_lines cfg \<and> strip line = [] then st
      else if ignore_metadata cfg \<and> metadata_match (strip line) then st
      else
        case apply_labels cfg (apply_debug_info cfg (apply_comments cfg line))
               (label_counter st) (label_map st) of
          (line3, lc, lm) \<Rightarrow>
            (case apply_temp_vars cfg line3 (temp_var_counter st) (temp_var_map st) of
               (line4, tc, tm) \<Rightarrow>
                 \<lparr>normalized_lines =
                    (if strip (apply_whitespace cfg line4) \<noteq> []
                     then normalized_lines st @ [apply_whitespace cfg line4]
                     else normalized_lines st),
                  temp_var_counter = tc, label_counter = lc,
                  temp_var_map = tm, label_map = lm\<rparr>))"

text \<open>\<open>normalize\<close>: the list \<open>normalized_lines\<close> at the end of the loop, and its join.\<close>

definition normalize_lines :: "ComparisonConfig \<Rightarrow> string \<Rightarrow> string list" where
  "normalize_lines cfg ir_content =
     normalized_lines
       (foldl (normalize_line cfg) init_normalize_state (split_on (CHR 0x0A) ir_content))"

definition normalize :: "ComparisonConfig \<Rightarrow> string \<Rightarrow> string" where
  "normalize cfg ir_content = join_newline (normalize_lines cfg ir_content)"

section \<open>Alignment engine (analyzer.py)\<close>

text \<open>
  \<open>_find_valid_npm_match\<close>: the loop over \<open>enumerate(self.npm_dumps)\<close>, returning at the
  first pass with the wanted name whose position is unused and beyond \<open>last_index\<close>.
\<close>

fun find_valid_npm_match_from ::
  "nat \<Rightarrow> PassDump list \<Rightarrow> string \<Rightarrow> nat set \<Rightarrow> int \<Rightarrow> (nat \<times> PassDump) option" where
  "find_valid_npm_match_from i [] npm_pass_name used_indices last_index = None"
| "find_valid_npm_match_from i (npm_pass # rest) npm_pass_name used_indices last_index =
     (if pass_name npm_pass = npm_pass_name \<and> i \<notin> used_indices \<and> int i > last_index
      then Some (i, npm_pass)
      else find_valid_npm_match_from (Suc i) rest npm_pass_name used_indices last_index)"

definition find_valid_npm_match ::
  "PassDump list \<Rightarrow> string \<Rightarrow> nat set \<Rightarrow> int \<Rightarrow> (nat \<times> PassDump) option" where
  "find_valid_npm_match npm_dumps npm_pass_name used_indices last_index =
     find_valid_npm_match_from 0 npm_dumps npm_pass_name used_indices last_index"

text \<open>The local variables of \<open>_create_chronological_mapping\<close>.\<close>

record mapping_state =
  mapped_pairs :: "(PassDump \<times> PassDump) list"
  used_npm_indices :: "nat set"
  last_npm_index :: int
  skipped_legacy :: "string list"
  explicitly_excluded :: "string list"

definition init_mapping_state :: mapping_state where
  "init_mapping_state =
     \<lparr>mapped_pairs = [], used_npm_indices = {}, last_npm_index = - 1,
      skipped_legacy = [], explicitly_excluded = []\<rparr>"

text \<open>
  One iteration of the loop over \<open>self.legacy_dumps\<close>. \<open>pass_mapping\<close> is the dictionary
  loaded from the mapping document; \<open>.get\<close> gives \<open>None\<close> for a missing key, and
  \<open>not npm_pass_name\<close> also holds for the empty string.
\<close>

definition mapping_step ::
  "ComparisonConfig \<Rightarrow> (string \<rightharpoonup> string) \<Rightarrow> PassDump list \<Rightarrow>
   mapping_state \<Rightarrow> PassDump \<Rightarrow> mapping_state" where
  "mapping_step cfg pass_mapping npm_dumps st legacy_pass =
     (if pass_name legacy_pass \<in> set (excluded_legacy_passes cfg)
      then st\<lparr>explicitly_excluded := explicitly_excluded st @ [pass_name legacy_pass]\<rparr>
      else case pass_mapping (pass_name legacy_pass) of
        None \<Rightarrow> st\<lparr>skipped_legacy := skipped_legacy st @ [pass_name legacy_pass]\<rparr>
      | Some npm_pass_name \<Rightarrow>
          if npm_pass_name = []
          then st\<lparr>skipped_legacy := skipped_legacy st @ [pass_name legacy_pass]\<rparr>
          else if npm_pass_name \<in> set (excluded_npm_passes cfg)
          then st\<lparr>explicitly_excluded :=
                    explicitly_excluded st @ [pass_name legacy_pass @ '' -> '' @ npm_pass_name]\<rparr>
          else case find_valid_npm_match npm_dumps npm_pass_name
                      (used_npm_indices st) (last_npm_index st) of
            Some (npm_idx, npm_pass) \<Rightarrow>
              st\<lparr>mapped_pairs := mapped_pairs st @ [(legacy_pass, npm_pass)],
                 used_npm_indices := insert npm_idx (used_npm_indices st),
                 last_npm_index := int npm_idx\<rparr>
          | None \<Rightarrow> st\<lparr>skipped_legacy := skipped_legacy st @ [pass_name legacy_pass]\<rparr>)"

definition create_chronological_mapping ::
  "ComparisonConfig \<Rightarrow> (string \<rightharpoonup> string) \<Rightarrow> PassDump list \<Rightarrow> PassDump list \<Rightarrow>
   (PassDump \<times> PassDump) list \<times> string list" where
  "create_chronological_mapping cfg pass_mapping legacy_dumps npm_dumps =
     (let st = foldl (mapping_step cfg pass_mapping npm_dumps) init_mapping_state legacy_dumps
      in (mapped_pairs st, skipped_legacy st))"

text \<open>
  The pass lists that extraction builds number their passes by position
  (\<open>pass_index=i\<close> under \<open>enumerate\<close>).
\<close>

definition indexed_by_position :: "PassDump list \<Rightarrow> bool" where
  "indexed_by_position ds = (map pass_index ds = [0 ..< length ds])"

text \<open>
  A legacy pass is explicitly excluded when its name is in the legacy exclusion list, or
  its (non-empty) mapped name is in the NPM exclusion list.
\<close>

definition is_explicitly_excluded ::
  "ComparisonConfig \<Rightarrow> (string \<rightharpoonup> string) \<Rightarrow> PassDump \<Rightarrow> bool" where
  "is_explicitly_excluded cfg pass_mapping legacy_pass =
     (pass_name legacy_pass \<in> set (excluded_legacy_passes cfg) \<or>
      (case pass_mapping (pass_name legacy_pass) of
         None \<Rightarrow> False
       | Some npm_pass_name \<Rightarrow>
           npm_pass_name \<noteq> [] \<and> npm_pass_name \<in> set (excluded_npm_passes cfg)))"

text \<open>The invariant of the loop: the chosen NPM indices increase and stay at or below
  \<open>last_npm_index\<close>.\<close>

definition mapping_inv :: "mapping_state \<Rightarrow> bool" where
  "mapping_inv st =
     (sorted_wrt (<) (map (\<lambda>q. pass_index (snd q)) (mapped_pairs st)) \<and>
      (\<forall>q \<in> set (mapped_pairs st). int (pass_index (snd q)) \<le> last_npm_index st))"

section \<open>Divergence scanner (analyzer.py)\<close>

text \<open>
  The files of the run: a path has a content or is no file. Reading in text mode turns
  \<open>\r\n\<close> and \<open>\r\<close> into \<open>\n\<close>.
\<close>

type_synonym file_system = "string \<rightharpoonup> string"

datatype analysis_error = FileNotFoundError string

fun universal_newlines :: "string \<Rightarrow> string" where
  "universal_newlines [] = []"
| "universal_newlines [c] = (if c = CHR 0x0D then [CHR 0x0A] else [c])"
| "universal_newlines (c # d # cs) =
     (if c = CHR 0x0D
      then (if d = CHR 0x0A then CHR 0x0A # universal_newlines cs
            else CHR 0x0A # universal_newlines (d # cs))
      else c # universal_newlines (d # cs))"

definition read_text :: "file_system \<Rightarrow> string \<Rightarrow> analysis_error + string" where
  "read_text fs path =
     (case fs path of
        None \<Rightarrow> Inl (FileNotFoundError path)
      | Some content \<Rightarrow> Inr (universal_newlines content))"

definition load_and_normalize_ir ::
  "ComparisonConfig \<Rightarrow> file_system \<Rightarrow> string \<Rightarrow> analysis_error + string" where
  "load_and_normalize_ir cfg fs path =
     (case read_text fs path of
        Inl e \<Rightarrow> Inl e
      | Inr content \<Rightarrow> Inr (normalize cfg content))"

text \<open>The dictionary that \<open>_find_first_divergence\<close> returns.\<close>

datatype divergence_result =
    NoDivergence
  | Divergence
      (divergence_index : nat)
      (legacy_pass : PassDump)
      (npm_pass : PassDump)
      (last_common_index : "nat option")
      (last_common_legacy : "PassDump option")
      (last_common_npm : "PassDump option")
      (legacy_ir : string)
      (npm_ir : string)

text \<open>
  The loop of \<open>_find_first_divergence\<close> from pair \<open>i\<close> on, over the pairs that remain. Next to
  the result it returns the paths of the files it has opened, in order: the record of
  which pairs were inspected. An exception of \<open>open\<close> ends the scan.
\<close>

fun find_first_divergence_from ::
  "ComparisonConfig \<Rightarrow> file_system \<Rightarrow> (PassDump \<times> PassDump) list \<Rightarrow> nat \<Rightarrow>
   (PassDump \<times> PassDump) list \<Rightarrow> string list \<Rightarrow>
   (analysis_error + divergence_result) \<times> string list" where
  "find_first_divergence_from cfg fs all_pairs i [] opened = (Inr NoDivergence, opened)"
| "find_first_divergence_from cfg fs all_pairs i ((l_pass, n_pass) # rest) opened =
     (case load_and_normalize_ir cfg fs (file_path l_pass) of
        Inl e \<Rightarrow> (Inl e, opened @ [file_path l_pass])
      | Inr l_ir \<Rightarrow>
          (case load_and_normalize_ir cfg fs (file_path n_pass) of
             Inl e \<Rightarrow> (Inl e, opened @ [file_path l_pass, file_path n_pass])
           | Inr n_ir \<Rightarrow>
               if l_ir \<noteq> n_ir
               then (Inr (Divergence i l_pass n_pass
                            (if i > 0 then Some (i - 1) else None)
                            (if i > 0 then Some (fst (all_pairs ! (i - 1))) else None)
                            (if i > 0 then Some (snd (all_pairs ! (i - 1))) else None)
                            l_ir n_ir),
                     opened @ [file_path l_pass, file_path n_pass])
               else find_first_divergence_from cfg fs all_pairs (Suc i) rest
                      (opened @ [file_path l_pass, file_path n_pass])))"

definition find_first_divergence ::
  "ComparisonConfig \<Rightarrow> file_system \<Rightarrow> (PassDump \<times> PassDump) list \<Rightarrow>
   (analysis_error + divergence_result) \<times> string list" where
  "find_first_divergence cfg fs all_pairs =
     find_first_divergence_from cfg fs all_pairs 0 all_pairs []"

text \<open>The two sides of a pair can be read and normalize to the same text, or to two
  different texts.\<close>

definition sides_agree :: "ComparisonConfig \<Rightarrow> file_system \<Rightarrow> PassDump \<times> PassDump \<Rightarrow> bool" where
  "sides_agree cfg fs pair =
     (case (load_and_normalize_ir cfg fs (file_path (fst pair)),
            load_and_normalize_ir cfg fs (file_path (snd pair))) of
        (Inr a, Inr b) \<Rightarrow> a = b
      | _ \<Rightarrow> False)"

definition sides_differ :: "ComparisonConfig \<Rightarrow> file_system \<Rightarrow> PassDump \<times> PassDump \<Rightarrow> bool" where
  "sides_differ cfg fs pair =
     (case (load_and_normalize_ir cfg fs (file_path (fst pair)),
            load_and_normalize_ir cfg fs (file_path (snd pair))) of
        (Inr a, Inr b) \<Rightarrow> a \<noteq> b
      | _ \<Rightarrow> False)"

definition paths_of :: "(PassDump \<times> PassDump) list \<Rightarrow> string list" where
  "paths_of pairs = concat (map (\<lambda>(a, b). [file_path a, file_path b]) pairs)"

text \<open>
  The scenario of the specification: two legacy passes, three NPM passes, and a mapping of
  both legacy names; and a legacy pipeline with an excluded and an unmapped pass before it.
\<close>

definition scenario_legacy :: "PassDump list" where
  "scenario_legacy =
     [\<lparr>pass_name = ''InstCombine'', pass_index = 0, file_path = ''legacy/000_InstCombine.ll''\<rparr>,
      \<lparr>pass_name = ''early-cse'', pass_index = 1, file_path = ''legacy/001_early-cse.ll''\<rparr>]"

definition scenario_npm :: "PassDump list" where
  "scenario_npm =
     [\<lparr>pass_name = ''instcombine'', pass_index = 0, file_path = ''npm/000_instcombine.ll''\<rparr>,
      \<lparr>pass_name = ''simplifycfg'', pass_index = 1, file_path = ''npm/001_simplifycfg.ll''\<rparr>,
      \<lparr>pass_name = ''early-cse'', pass_index = 2, file_path = ''npm/002_early-cse.ll''\<rparr>]"

definition scenario_mapping :: "string \<rightharpoonup> string" where
  "scenario_mapping = [''InstCombine'' \<mapsto> ''instcombine'', ''early-cse'' \<mapsto> ''early-cse'']"

definition verify_pass :: PassDump where
  "verify_pass = \<lparr>pass_name = ''verify'', pass_index = 0, file_path = ''legacy/000_verify.ll''\<rparr>"

definition excluding_config :: ComparisonConfig where
  "excluding_config = default_config\<lparr>excluded_legacy_passes := [''verify'']\<rparr>"

definition scenario_files :: file_system where
  "scenario_files =
     [''legacy/000_InstCombine.ll'' \<mapsto> ''  %a = add i32 %x, 1\<newline>'',
      ''npm/000_instcombine.ll'' \<mapsto> ''  %b = add i32 %y, 1\<newline>'',
      ''npm/001_simplifycfg.ll'' \<mapsto> ''  ret i32 7\<newline>'',
      ''legacy/001_early-cse.ll'' \<mapsto> ''  ret i32 0\<newline>'',
      ''npm/002_early-cse.ll'' \<mapsto> ''  ret i32 1\<newline>'']"

definition scenario_pairs :: "(PassDump \<times> PassDump) list" where
  "scenario_pairs =
     fst (create_chronological_mapping default_config scenario_mapping scenario_legacy scenario_npm)"

text \<open>A line of whitespace only: what \<open>not line.strip()\<close> tests.\<close>

definition blank :: "string \<Rightarrow> bool" where
  "blank s = (\<forall>c \<in> set s. is_space c)"

text \<open>The option set with every option disabled.\<close>

definition no_normalization :: ComparisonConfig where
  "no_normalization =
     \<lparr>ignore_whitespace = False, ignore_empty_lines = False, ignore_temp_vars = False,
      ignore_labels = False, ignore_metadata = False, ignore_debug_info = False,
      ignore_comments = False, verbose = False, quiet = False,
      excluded_legacy_passes = [], excluded_npm_passes = []\<rparr>"

section \<open>Header scanner and content extractor (parser.py)\<close>

text \<open>
  The text of an input file as \<open>open(..., 'r')\<close> gives it (\<open>read_text\<close>), and its lines as
  iteration over the file and \<open>readlines\<close> give them: each line with its newline, the
  last one possibly without.
\<close>

fun readlines :: "string \<Rightarrow> string list" where
  "readlines [] = []"
| "readlines (c # cs) =
     (if c = CHR 0x0A then [c] # readlines cs
      else case readlines cs of [] \<Rightarrow> [[c]] | l # ls \<Rightarrow> (c # l) # ls)"

text \<open>
  \<open>(.+) \*\*\*\<close> with a greedy group: the longest non-empty prefix that is followed by a
  space and three stars.
\<close>

fun greedy_until_stars :: "string \<Rightarrow> string option" where
  "greedy_until_stars [] = None"
| "greedy_until_stars (c # cs) =
     (case greedy_until_stars cs of
        Some g \<Rightarrow> Some (c # g)
      | None \<Rightarrow> if take 4 cs = '' ***'' then Some [c] else None)"

text \<open>
  \<open>legacy_pattern.match(line)\<close>, pattern \<open>^\s*#?\s*\*\*\* IR Dump After (.+) \*\*\*:?\<close>:
  group 1. The line is a stripped line of the file and holds no newline.
\<close>

definition legacy_match :: "string \<Rightarrow> string option" where
  "legacy_match line =
     (let r0 = dropWhile is_space line;
          r1 = (case r0 of [] \<Rightarrow> r0 | c # r \<Rightarrow> if c = CHR ''#'' then r else r0);
          r2 = dropWhile is_space r1
      in if take 18 r2 = ''*** IR Dump After '' then greedy_until_stars (drop 18 r2) else None)"

text \<open>
  \<open>re.findall(r'\(([^)]+)\)', content)\<close>: the groups of the matches, left to right. At an
  opening parenthesis the group is the run of characters up to the next closing one; it
  must not be empty and the closing parenthesis must exist.
\<close>

function parentheses_matches :: "string \<Rightarrow> string list" where
  "parentheses_matches [] = []"
| "parentheses_matches (c # cs) =
     (if c = CHR ''('' \<and> takeWhile (\<lambda>x. x \<noteq> CHR '')'') cs \<noteq> []
         \<and> dropWhile (\<lambda>x. x \<noteq> CHR '')'') cs \<noteq> []
      then takeWhile (\<lambda>x. x \<noteq> CHR '')'') cs
             # parentheses_matches (tl (dropWhile (\<lambda>x. x \<noteq> CHR '')'') cs))
      else parentheses_matches cs)"
  by pat_completeness auto
termination
proof (relation "measure length")
  fix c :: char and cs :: string
  have "length (tl (dropWhile (\<lambda>x. x \<noteq> CHR '')'') cs)) \<le> length cs"
    using length_dropWhile_le [of "\<lambda>x. x \<noteq> CHR '')''" cs] by simp
  then show "(tl (dropWhile (\<lambda>x. x \<noteq> CHR '')'') cs), c # cs) \<in> measure length"
    by simp
qed simp_all

definition extract_last_parentheses :: "string \<Rightarrow> string" where
  "extract_last_parentheses content =
     (case rev (parentheses_matches content) of
        [] \<Rightarrow> strip content
      | m # _ \<Rightarrow> strip m)"

text \<open>\<open>_find_legacy_headers\<close>, from line number \<open>n\<close> on; the first line has number 1.\<close>

fun find_legacy_headers_from :: "nat \<Rightarrow> string list \<Rightarrow> ParsedHeader list" where
  "find_legacy_headers_from n [] = []"
| "find_legacy_headers_from n (l # ls) =
     (case legacy_match (rstrip l) of
        None \<Rightarrow> find_legacy_headers_from (Suc n) ls
      | Some g \<Rightarrow>
          \<lparr>ParsedHeader.pass_name = extract_last_parentheses (strip g),
           original_line = rstrip l, line_number = Suc n,
           dump_type = ''unknown'', target = ''unknown''\<rparr>
            # find_legacy_headers_from (Suc n) ls)"

definition find_legacy_headers :: "string list \<Rightarrow> ParsedHeader list" where
  "find_legacy_headers file_lines = find_legacy_headers_from 0 file_lines"

text \<open>
  \<open>(.+?) \*\*\*\<close> with a lazy group: the shortest non-empty prefix that is followed by a
  space and three stars.
\<close>

fun lazy_until_stars :: "string \<Rightarrow> string option" where
  "lazy_until_stars [] = None"
| "lazy_until_stars (c # cs) =
     (if take 4 cs = '' ***'' then Some [c] else map_option ((#) c) (lazy_until_stars cs))"

text \<open>
  \<open>(.+?) on (.+?) \*\*\*\<close>: the shortest non-empty first group that is followed by
  \<open>on\<close> between two spaces and a match of the rest; the two groups.
\<close>

fun npm_groups :: "string \<Rightarrow> (string \<times> string) option" where
  "npm_groups [] = None"
| "npm_groups (c # cs) =
     (case (if take 4 cs = '' on '' then lazy_until_stars (drop 4 cs) else None) of
        Some t \<Rightarrow> Some ([c], t)
      | None \<Rightarrow> map_option (\<lambda>(g, t). (c # g, t)) (npm_groups cs))"

text \<open>
  \<open>npm_pattern.match(line)\<close>, pattern \<open>; \*\*\* IR Dump After (.+?) on (.+?) \*\*\*\<close>:
  \<open>match\<close> tries the pattern at the start of the line only.
\<close>

definition npm_match :: "string \<Rightarrow> (string \<times> string) option" where
  "npm_match line =
     (if take 20 line = ''; *** IR Dump After '' then npm_groups (drop 20 line) else None)"

fun find_npm_headers_from :: "nat \<Rightarrow> string list \<Rightarrow> ParsedHeader list" where
  "find_npm_headers_from n [] = []"
| "find_npm_headers_from n (l # ls) =
     (case npm_match (rstrip l) of
        None \<Rightarrow> find_npm_headers_from (Suc n) ls
      | Some (g1, g2) \<Rightarrow>
          \<lparr>ParsedHeader.pass_name = strip g1,
           original_line = rstrip l, line_number = Suc n,
           dump_type = (if strip g2 = ''[module]'' then ''module'' else ''function''),
           target = (if strip g2 = ''[module]'' then ''module'' else strip g2)\<rparr>
            # find_npm_headers_from (Suc n) ls)"

definition find_npm_headers :: "string list \<Rightarrow> ParsedHeader list" where
  "find_npm_headers file_lines = find_npm_headers_from 0 file_lines"

text \<open>
  \<open>_extract_ir_content\<close>. Its callers pass \<open>start_line \<ge> 2\<close> and \<open>end_line \<ge> 1\<close>, so the
  bounds of the slice are not negative, and \<open>lines[a:b]\<close> is \<open>take (b - a) (drop a lines)\<close>.
\<close>

definition extract_ir_content :: "string list \<Rightarrow> nat \<Rightarrow> nat \<Rightarrow> string" where
  "extract_ir_content file_lines start_line end_line =
     (if start_line \<ge> length file_lines then []
      else concat (map (\<lambda>l. rstrip l @ [CHR 0x0A])
             (take ((end_line - 1) - (start_line - 1)) (drop (start_line - 1) file_lines))))"

text \<open>\<open>_sanitize_filename\<close> and \<open>_generate_filename\<close>.\<close>

function collapse_run :: "(char \<Rightarrow> bool) \<Rightarrow> char \<Rightarrow> string \<Rightarrow> string" where
  "collapse_run p r [] = []"
| "collapse_run p r (c # cs) =
     (if p c then r # collapse_run p r (dropWhile p cs) else c # collapse_run p r cs)"
  by pat_completeness auto
termination
  by (relation "measure (\<lambda>(p, r, s). length s)") (auto simp: less_Suc_eq_le length_dropWhile_le)

definition sanitize_filename :: "string \<Rightarrow> string" where
  "sanitize_filename name =
     (let clean1 = map (\<lambda>c. if c \<in> set [CHR ''<'', CHR ''>'', CHR '':'', CHR 0x22, CHR ''/'', CHR 0x5C,
                                             CHR ''|'', CHR ''?'', CHR ''*'']
                             then CHR ''_'' else c) name;
          clean2 = collapse_run is_space (CHR ''_'') clean1;
          clean3 = map (\<lambda>c. if c \<in> set '',()[]'' then CHR ''_'' else c) clean2;
          clean4 = collapse_run (\<lambda>c. c = CHR ''_'') (CHR ''_'') clean3;
          clean5 = strip_char (CHR ''_'') clean4
      in if length clean5 > 100 then take 100 clean5 else clean5)"

definition format_03d :: "nat \<Rightarrow> string" where
  "format_03d n = replicate (3 - length (str_of_nat n)) (CHR ''0'') @ str_of_nat n"

definition generate_filename :: "nat \<Rightarrow> string \<Rightarrow> string \<Rightarrow> string" where
  "generate_filename index name tgt =
     (if tgt \<noteq> [] \<and> tgt \<noteq> ''unknown'' \<and> tgt \<noteq> ''module''
      then format_03d index @ ''_'' @ sanitize_filename name @ ''_'' @ sanitize_filename tgt @ ''.ll''
      else format_03d index @ ''_'' @ sanitize_filename name @ ''.ll'')"

text \<open>
  The loop of \<open>extract_legacy_dumps\<close> and \<open>extract_npm_dumps\<close> over \<open>enumerate(headers)\<close>,
  from header \<open>i\<close> on: each pass with the content that \<open>_save_ir_to_file\<close> writes to its
  file. \<open>output_dir\<close> is the path of the directory without a final slash.
\<close>

fun extract_passes_from ::
  "string list \<Rightarrow> string \<Rightarrow> nat \<Rightarrow> ParsedHeader list \<Rightarrow> (PassDump \<times> string) list" where
  "extract_passes_from file_lines output_dir i [] = []"
| "extract_passes_from file_lines output_dir i (header # rest) =
     (let start_line = line_number header;
          end_line = (case rest of [] \<Rightarrow> length file_lines | next_header # _ \<Rightarrow> line_number next_header);
          ir_content = extract_ir_content file_lines (start_line + 1) end_line;
          filename = generate_filename i (ParsedHeader.pass_name header) (target header)
      in (\<lparr>pass_name = ParsedHeader.pass_name header, pass_index = i,
            file_path = output_dir @ ''/'' @ filename\<rparr>, ir_content)
           # extract_passes_from file_lines output_dir (Suc i) rest)"

definition extract_legacy_dumps :: "string \<Rightarrow> string \<Rightarrow> (PassDump \<times> string) list" where
  "extract_legacy_dumps input_text output_dir =
     (let file_lines = readlines (universal_newlines input_text)
      in extract_passes_from file_lines output_dir 0 (find_legacy_headers file_lines))"

definition extract_npm_dumps :: "string \<Rightarrow> string \<Rightarrow> (PassDump \<times> string) list" where
  "extract_npm_dumps input_text output_dir =
     (let file_lines = readlines (universal_newlines input_text)
      in extract_passes_from file_lines output_dir 0 (find_npm_headers file_lines))"


section \<open>Lines with a named temporary\<close>




section \<open>Properties of the alignment engine\<close>

lemma find_valid_npm_match_from_Some:
  "find_valid_npm_match_from k ds n usd lst = Some (i, p) \<Longrightarrow>
     k \<le> i \<and> i - k < length ds \<and> p = ds ! (i - k) \<and> int i > lst \<and> i \<notin> usd
     \<and> pass_name p = n"
proof (induction ds arbitrary: k)
  case Nil
  then show ?case by simp
next
  case (Cons d ds)
  show ?case
  proof (cases "pass_name d = n \<and> k \<notin> usd \<and> int k > lst")
    case True
    with Cons.prems show ?thesis by auto
  next
    case False
    with Cons.prems have "find_valid_npm_match_from (Suc k) ds n usd lst = Some (i, p)"
      by auto
    from Cons.IH [OF this] show ?thesis
      by (auto simp: Suc_diff_le)
  qed
qed

lemma find_valid_npm_match_Some:
  "find_valid_npm_match ds n usd lst = Some (i, p) \<Longrightarrow>
     i < length ds \<and> p = ds ! i \<and> int i > lst \<and> i \<notin> usd \<and> pass_name p = n"
  using find_valid_npm_match_from_Some [of 0 ds n usd lst i p]
  by (auto simp: find_valid_npm_match_def)

lemma mapping_inv_init: "mapping_inv init_mapping_state"
  by (simp add: mapping_inv_def init_mapping_state_def)

lemma mapping_inv_step:
  assumes ix: "indexed_by_position npm" and inv: "mapping_inv st"
  shows "mapping_inv (mapping_step cfg pm npm st a)"
proof -
  have matched: "mapping_inv
      (st\<lparr>mapped_pairs := mapped_pairs st @ [(a, p)],
          used_npm_indices := insert i (used_npm_indices st),
          last_npm_index := int i\<rparr>)"
    if m: "find_valid_npm_match npm n (used_npm_indices st) (last_npm_index st) = Some (i, p)"
    for n i p
  proof -
    from find_valid_npm_match_Some [OF m]
    have i: "i < length npm" "p = npm ! i" "int i > last_npm_index st" by auto
    from ix have "map pass_index npm ! i = [0 ..< length npm] ! i"
      by (simp add: indexed_by_position_def)
    with i(1,2) have pi: "pass_index p = i" by simp
    from inv have s: "sorted_wrt (<) (map (\<lambda>q. pass_index (snd q)) (mapped_pairs st))"
      and b: "\<forall>q \<in> set (mapped_pairs st). int (pass_index (snd q)) \<le> last_npm_index st"
      by (auto simp: mapping_inv_def)
    from b i(3) have lt: "\<forall>q \<in> set (mapped_pairs st). pass_index (snd q) < i"
      by fastforce
    from s lt pi show ?thesis
      by (auto simp: mapping_inv_def sorted_wrt_append less_imp_le)
  qed
  have unchanged: "mapping_inv (st\<lparr>skipped_legacy := xs\<rparr>)"
    "mapping_inv (st\<lparr>explicitly_excluded := xs\<rparr>)" for xs
    using inv by (simp_all add: mapping_inv_def)
  show ?thesis
    unfolding mapping_step_def
    by (auto simp: unchanged matched split: option.splits)
qed

lemma mapping_inv_foldl:
  "indexed_by_position npm \<Longrightarrow> mapping_inv st \<Longrightarrow>
     mapping_inv (foldl (mapping_step cfg pm npm) st as)"
  by (induction as arbitrary: st) (simp_all add: mapping_inv_step)

text \<open>
  Claim C2. In the pair list of the alignment engine the indices of the NPM-side passes are
  strictly increasing in emission order, so no index occurs in two pairs. The NPM list
  is one whose passes are numbered by position, as extraction builds it.
\<close>

theorem alignment_npm_indices_strictly_increasing:
  assumes "indexed_by_position npm_dumps"
  shows "sorted_wrt (<) (map (\<lambda>q. pass_index (snd q))
            (fst (create_chronological_mapping cfg pass_mapping legacy_dumps npm_dumps)))
       \<and> distinct (map (\<lambda>q. pass_index (snd q))
            (fst (create_chronological_mapping cfg pass_mapping legacy_dumps npm_dumps)))"
proof -
  let ?st = "foldl (mapping_step cfg pass_mapping npm_dumps) init_mapping_state legacy_dumps"
  from mapping_inv_foldl [OF assms mapping_inv_init]
  have s: "sorted_wrt (<) (map (\<lambda>q. pass_index (snd q)) (mapped_pairs ?st))"
    by (simp add: mapping_inv_def)
  then have "distinct (map (\<lambda>q. pass_index (snd q)) (mapped_pairs ?st))"
    by (simp add: strict_sorted_iff)
  with s show ?thesis
    by (simp add: create_chronological_mapping_def Let_def)
qed

theorem alignment_npm_indices_strictly_increasing_witness:
  "indexed_by_position scenario_npm
   \<and> sorted_wrt (<) (map (\<lambda>q. pass_index (snd q))
         (fst (create_chronological_mapping default_config scenario_mapping
                 scenario_legacy scenario_npm)))
   \<and> distinct (map (\<lambda>q. pass_index (snd q))
         (fst (create_chronological_mapping default_config scenario_mapping
                 scenario_legacy scenario_npm)))"
proof -
  have h: "indexed_by_position scenario_npm"
    by (simp add: indexed_by_position_def scenario_npm_def upt_rec)
  from alignment_npm_indices_strictly_increasing [OF h] h show ?thesis
    by blast
qed

lemma mapping_step_cases:
  "(is_explicitly_excluded cfg pm a \<and> mapped_pairs (mapping_step cfg pm npm st a) = mapped_pairs st
      \<and> skipped_legacy (mapping_step cfg pm npm st a) = skipped_legacy st)
   \<or> (\<not> is_explicitly_excluded cfg pm a \<and>
        (\<exists>b. mapped_pairs (mapping_step cfg pm npm st a) = mapped_pairs st @ [(a, b)])
      \<and> skipped_legacy (mapping_step cfg pm npm st a) = skipped_legacy st)
   \<or> (\<not> is_explicitly_excluded cfg pm a \<and>
        mapped_pairs (mapping_step cfg pm npm st a) = mapped_pairs st
      \<and> skipped_legacy (mapping_step cfg pm npm st a) = skipped_legacy st @ [pass_name a])"
  by (auto simp: mapping_step_def is_explicitly_excluded_def split: option.splits)

lemma mapping_foldl_shuffles:
  "\<exists>P S. mapped_pairs (foldl (mapping_step cfg pm npm) st as) = mapped_pairs st @ P
       \<and> skipped_legacy (foldl (mapping_step cfg pm npm) st as) = skipped_legacy st @ S
       \<and> map pass_name (filter (\<lambda>a. \<not> is_explicitly_excluded cfg pm a) as)
            \<in> shuffles (map (\<lambda>q. pass_name (fst q)) P) S"
proof (induction as arbitrary: st)
  case Nil
  show ?case by simp
next
  case (Cons a as)
  let ?st' = "mapping_step cfg pm npm st a"
  from Cons.IH [of ?st'] obtain P S where
    P: "mapped_pairs (foldl (mapping_step cfg pm npm) ?st' as) = mapped_pairs ?st' @ P"
    and S: "skipped_legacy (foldl (mapping_step cfg pm npm) ?st' as) = skipped_legacy ?st' @ S"
    and sh: "map pass_name (filter (\<lambda>a. \<not> is_explicitly_excluded cfg pm a) as)
            \<in> shuffles (map (\<lambda>q. pass_name (fst q)) P) S"
    by blast
  from mapping_step_cases [of cfg pm a npm st]
  consider
    (excl) "is_explicitly_excluded cfg pm a" "mapped_pairs ?st' = mapped_pairs st"
      "skipped_legacy ?st' = skipped_legacy st"
  | (pair) b where "\<not> is_explicitly_excluded cfg pm a"
      "mapped_pairs ?st' = mapped_pairs st @ [(a, b)]" "skipped_legacy ?st' = skipped_legacy st"
  | (skip) "\<not> is_explicitly_excluded cfg pm a" "mapped_pairs ?st' = mapped_pairs st"
      "skipped_legacy ?st' = skipped_legacy st @ [pass_name a]"
    by blast
  then show ?case
  proof cases
    case excl
    with P S sh show ?thesis
      by (intro exI [of _ P] exI [of _ S]) simp
  next
    case pair
    from sh have "pass_name a # map pass_name (filter (\<lambda>a. \<not> is_explicitly_excluded cfg pm a) as)
        \<in> shuffles (map (\<lambda>q. pass_name (fst q)) ((a, b) # P)) S"
      by (simp add: Cons_in_shuffles_leftI)
    with pair P S show ?thesis
      by (intro exI [of _ "(a, b) # P"] exI [of _ S]) simp
  next
    case skip
    from sh have "pass_name a # map pass_name (filter (\<lambda>a. \<not> is_explicitly_excluded cfg pm a) as)
        \<in> shuffles (map (\<lambda>q. pass_name (fst q)) P) (pass_name a # S)"
      by (simp add: Cons_in_shuffles_rightI)
    with skip P S show ?thesis
      by (intro exI [of _ P] exI [of _ "pass_name a # S"]) simp
  qed
qed

text \<open>
  Claim C6, as the code has it. The legacy passes that are not explicitly excluded are, in
  their original order, exactly the legacy sides of the emitted pairs interleaved with the
  returned list of skipped names: a pass with no mapping entry, with an empty mapped name
  or with no valid chronological match is in the returned list, in order, and none is lost.
  The explicitly excluded passes (name in the legacy exclusion list, or mapped name in the
  NPM exclusion list) go to a list of their own, which is not returned.
\<close>

theorem unmatched_not_excluded_accumulated:
  "map pass_name (filter (\<lambda>a. \<not> is_explicitly_excluded cfg pass_mapping a) legacy_dumps)
     \<in> shuffles
          (map (\<lambda>q. pass_name (fst q))
             (fst (create_chronological_mapping cfg pass_mapping legacy_dumps npm_dumps)))
          (snd (create_chronological_mapping cfg pass_mapping legacy_dumps npm_dumps))"
  using mapping_foldl_shuffles [of cfg pass_mapping npm_dumps init_mapping_state legacy_dumps]
  by (auto simp: create_chronological_mapping_def Let_def init_mapping_state_def)

theorem unmatched_not_excluded_accumulated_witness:
  "map pass_name
     (filter (\<lambda>a. \<not> is_explicitly_excluded excluding_config scenario_mapping a)
        (verify_pass # scenario_legacy))
     \<in> shuffles
          (map (\<lambda>q. pass_name (fst q))
             (fst (create_chronological_mapping excluding_config scenario_mapping
                     (verify_pass # scenario_legacy) scenario_npm)))
          (snd (create_chronological_mapping excluding_config scenario_mapping
                  (verify_pass # scenario_legacy) scenario_npm))"
  by (rule unmatched_not_excluded_accumulated)

text \<open>
  Claim C6, as stated, fails: a legacy pass whose name is in the legacy exclusion list is in
  no pair and not in the returned list either.
\<close>

theorem excluded_pass_not_returned_counterexample:
  "create_chronological_mapping excluding_config scenario_mapping [verify_pass] scenario_npm
     = ([], [])"
  by (simp add: create_chronological_mapping_def excluding_config_def default_config_def
      verify_pass_def mapping_step_def init_mapping_state_def)

section \<open>Properties of the divergence scanner\<close>

lemma paths_of_Cons: "paths_of ((a, b) # ps) = file_path a # file_path b # paths_of ps"
  by (simp add: paths_of_def)

lemma find_first_divergence_from_agree:
  "\<forall>j < length rest. sides_agree cfg fs (rest ! j) \<Longrightarrow>
     find_first_divergence_from cfg fs all k rest opened = (Inr NoDivergence, opened @ paths_of rest)"
proof (induction rest arbitrary: k opened)
  case Nil
  show ?case by (simp add: paths_of_def)
next
  case (Cons p rest)
  obtain a b where p: "p = (a, b)" by (cases p)
  from Cons.prems have "sides_agree cfg fs ((p # rest) ! 0)" by blast
  with p obtain t where t: "load_and_normalize_ir cfg fs (file_path a) = Inr t"
    "load_and_normalize_ir cfg fs (file_path b) = Inr t"
    by (auto simp: sides_agree_def split: sum.splits)
  from Cons.prems have "\<forall>j < length rest. sides_agree cfg fs (rest ! j)" by fastforce
  from Cons.IH [OF this] p t show ?case
    by (simp add: paths_of_Cons)
qed

lemma find_first_divergence_from_differ:
  assumes "n < length rest" and "\<forall>j < n. sides_agree cfg fs (rest ! j)"
    and "load_and_normalize_ir cfg fs (file_path (fst (rest ! n))) = Inr x"
    and "load_and_normalize_ir cfg fs (file_path (snd (rest ! n))) = Inr y"
    and "x \<noteq> y"
  shows "find_first_divergence_from cfg fs all k rest opened =
     (Inr (Divergence (k + n) (fst (rest ! n)) (snd (rest ! n))
            (if k + n > 0 then Some (k + n - 1) else None)
            (if k + n > 0 then Some (fst (all ! (k + n - 1))) else None)
            (if k + n > 0 then Some (snd (all ! (k + n - 1))) else None)
            x y),
      opened @ paths_of (take (Suc n) rest))"
  using assms
proof (induction rest arbitrary: k n opened)
  case Nil
  then show ?case by simp
next
  case (Cons p rest)
  obtain a b where p: "p = (a, b)" by (cases p)
  show ?case
  proof (cases n)
    case 0
    with Cons.prems p show ?thesis
      by (simp add: paths_of_Cons paths_of_def)
  next
    case (Suc m)
    from Cons.prems Suc have "sides_agree cfg fs ((p # rest) ! 0)" by blast
    with p obtain t where t: "load_and_normalize_ir cfg fs (file_path a) = Inr t"
      "load_and_normalize_ir cfg fs (file_path b) = Inr t"
      by (auto simp: sides_agree_def split: sum.splits)
    from Cons.prems Suc have m: "m < length rest" "\<forall>j < m. sides_agree cfg fs (rest ! j)"
      "load_and_normalize_ir cfg fs (file_path (fst (rest ! m))) = Inr x"
      "load_and_normalize_ir cfg fs (file_path (snd (rest ! m))) = Inr y"
      by fastforce+
    from Cons.IH [OF m \<open>x \<noteq> y\<close>, of "Suc k" "opened @ [file_path a, file_path b]"] p t Suc
    show ?thesis
      by (simp add: paths_of_Cons)
  qed
qed

text \<open>
  Claim C1. If the two sides of every pair before position \<open>i\<close> normalize to equal text and
  those of pair \<open>i\<close> to different texts, the scan returns the divergence at index \<open>i\<close> with
  that pair and, as last common pair, pair \<open>i - 1\<close> (none when \<open>i = 0\<close>), and the files it
  has opened are those of the pairs up to \<open>i\<close> and no others; if the sides of every pair
  agree it reports no divergence.
\<close>

theorem find_first_divergence_first_mismatch:
  "(i < length pairs \<and> (\<forall>j < i. sides_agree cfg fs (pairs ! j)) \<and> sides_differ cfg fs (pairs ! i)
      \<longrightarrow> (\<exists>x y. load_and_normalize_ir cfg fs (file_path (fst (pairs ! i))) = Inr x
               \<and> load_and_normalize_ir cfg fs (file_path (snd (pairs ! i))) = Inr y \<and> x \<noteq> y
               \<and> find_first_divergence cfg fs pairs =
                   (Inr (Divergence i (fst (pairs ! i)) (snd (pairs ! i))
                          (if i > 0 then Some (i - 1) else None)
                          (if i > 0 then Some (fst (pairs ! (i - 1))) else None)
                          (if i > 0 then Some (snd (pairs ! (i - 1))) else None)
                          x y),
                    paths_of (take (Suc i) pairs))))
   \<and> ((\<forall>j < length pairs. sides_agree cfg fs (pairs ! j))
      \<longrightarrow> find_first_divergence cfg fs pairs = (Inr NoDivergence, paths_of pairs))"
proof (intro conjI impI)
  assume h: "i < length pairs \<and> (\<forall>j < i. sides_agree cfg fs (pairs ! j))
      \<and> sides_differ cfg fs (pairs ! i)"
  then obtain x y where xy: "load_and_normalize_ir cfg fs (file_path (fst (pairs ! i))) = Inr x"
    "load_and_normalize_ir cfg fs (file_path (snd (pairs ! i))) = Inr y" "x \<noteq> y"
    by (auto simp: sides_differ_def split: sum.splits)
  from h have "i < length pairs" "\<forall>j < i. sides_agree cfg fs (pairs ! j)" by blast+
  from find_first_divergence_from_differ [OF this xy, of pairs 0 "[]"] xy
  show "\<exists>x y. load_and_normalize_ir cfg fs (file_path (fst (pairs ! i))) = Inr x
               \<and> load_and_normalize_ir cfg fs (file_path (snd (pairs ! i))) = Inr y \<and> x \<noteq> y
               \<and> find_first_divergence cfg fs pairs =
                   (Inr (Divergence i (fst (pairs ! i)) (snd (pairs ! i))
                          (if i > 0 then Some (i - 1) else None)
                          (if i > 0 then Some (fst (pairs ! (i - 1))) else None)
                          (if i > 0 then Some (snd (pairs ! (i - 1))) else None)
                          x y),
                    paths_of (take (Suc i) pairs))"
    by (simp add: find_first_divergence_def)
next
  assume "\<forall>j < length pairs. sides_agree cfg fs (pairs ! j)"
  from find_first_divergence_from_agree [OF this, of pairs 0 "[]"]
  show "find_first_divergence cfg fs pairs = (Inr NoDivergence, paths_of pairs)"
    by (simp add: find_first_divergence_def)
qed

theorem find_first_divergence_first_mismatch_witness:
  "(1 < length scenario_pairs
      \<and> sides_agree default_config scenario_files (scenario_pairs ! 0)
      \<and> sides_differ default_config scenario_files (scenario_pairs ! 1))
   \<and> find_first_divergence default_config scenario_files scenario_pairs =
        (Inr (Divergence 1 (scenario_legacy ! 1) (scenario_npm ! 2) (Some 0)
                (Some (scenario_legacy ! 0)) (Some (scenario_npm ! 0))
                ''ret i32 0'' ''ret i32 1''),
         [''legacy/000_InstCombine.ll'', ''npm/000_instcombine.ll'',
          ''legacy/001_early-cse.ll'', ''npm/002_early-cse.ll''])
   \<and> length (take 1 scenario_pairs) = 1
   \<and> sides_agree default_config scenario_files (take 1 scenario_pairs ! 0)
   \<and> find_first_divergence default_config scenario_files (take 1 scenario_pairs) =
        (Inr NoDivergence, [''legacy/000_InstCombine.ll'', ''npm/000_instcombine.ll''])"
proof -
  have ps: "scenario_pairs = [(scenario_legacy ! 0, scenario_npm ! 0),
                              (scenario_legacy ! 1, scenario_npm ! 2)]"
    by code_simp
  have a: "sides_agree default_config scenario_files (scenario_pairs ! 0)"
    by code_simp
  have d: "sides_differ default_config scenario_files (scenario_pairs ! 1)"
    by code_simp
  have x: "load_and_normalize_ir default_config scenario_files
             (file_path (fst (scenario_pairs ! 1))) = Inr ''ret i32 0''"
    and y: "load_and_normalize_ir default_config scenario_files
             (file_path (snd (scenario_pairs ! 1))) = Inr ''ret i32 1''"
    by code_simp+
  have p1: "paths_of (take (Suc 1) scenario_pairs) =
      [''legacy/000_InstCombine.ll'', ''npm/000_instcombine.ll'',
       ''legacy/001_early-cse.ll'', ''npm/002_early-cse.ll'']"
    and p0: "paths_of (take 1 scenario_pairs) =
      [''legacy/000_InstCombine.ll'', ''npm/000_instcombine.ll'']"
    by code_simp+
  have h1: "1 < length scenario_pairs
      \<and> (\<forall>j < 1. sides_agree default_config scenario_files (scenario_pairs ! j))
      \<and> sides_differ default_config scenario_files (scenario_pairs ! 1)"
    using a d by (simp add: ps)
  have h2: "\<forall>j < length (take 1 scenario_pairs).
         sides_agree default_config scenario_files (take 1 scenario_pairs ! j)"
    using a by (simp add: ps)
  from find_first_divergence_first_mismatch
         [of 1 scenario_pairs default_config scenario_files] h1 x y p1
  have r1: "find_first_divergence default_config scenario_files scenario_pairs =
        (Inr (Divergence 1 (scenario_legacy ! 1) (scenario_npm ! 2) (Some 0)
                (Some (scenario_legacy ! 0)) (Some (scenario_npm ! 0))
                ''ret i32 0'' ''ret i32 1''),
         [''legacy/000_InstCombine.ll'', ''npm/000_instcombine.ll'',
          ''legacy/001_early-cse.ll'', ''npm/002_early-cse.ll''])"
    by (auto simp: ps)
  from find_first_divergence_first_mismatch
         [of 0 "take 1 scenario_pairs" default_config scenario_files] h2 p0
  have r2: "find_first_divergence default_config scenario_files (take 1 scenario_pairs) =
        (Inr NoDivergence, [''legacy/000_InstCombine.ll'', ''npm/000_instcombine.ll''])"
    by simp
  from a d r1 r2 show ?thesis by (simp add: ps)
qed

section \<open>Properties of the normalization engine\<close>

lemma space_not_word: "is_space c \<Longrightarrow> \<not> is_word c"
  by (auto simp: is_space_def is_word_def is_alnum_us_def is_alpha_us_def is_digit_def Let_def)

lemma space_not_alpha: "is_space c \<Longrightarrow> \<not> is_alpha_us c"
  by (auto simp: is_space_def is_alpha_us_def Let_def)

lemma space_not_special:
  "is_space c \<Longrightarrow> c \<noteq> CHR ''%'' \<and> c \<noteq> CHR '','' \<and> c \<noteq> CHR '';'' \<and> c \<noteq> CHR ''!''"
  by (auto simp: is_space_def Let_def)

lemma space_is_space: "is_space (CHR '' '')"
  by (simp add: is_space_def)

lemma strip_eq_Nil_iff: "strip s = [] \<longleftrightarrow> blank s"
proof
  assume "blank s"
  then have d: "dropWhile is_space s = []"
    by (induction s) (simp_all add: blank_def)
  show "strip s = []"
    by (simp add: strip_def lstrip_def rstrip_def d)
next
  assume a: "strip s = []"
  show "blank s"
  proof (cases "dropWhile is_space s")
    case Nil
    then show ?thesis by (simp add: blank_def)
  next
    case (Cons c cs)
    then have "\<not> is_space c" using hd_dropWhile [of is_space s] by simp
    moreover from a Cons have "\<forall>x \<in> set (c # cs). is_space x"
      by (simp add: strip_def lstrip_def rstrip_def)
    ultimately show ?thesis by simp
  qed
qed

lemma blank_Cons: "blank (c # cs) \<longleftrightarrow> is_space c \<and> blank cs"
  by (simp add: blank_def)

lemma remove_comments_blank: "blank s \<Longrightarrow> remove_comments s = s"
  by (auto simp: remove_comments_def blank_def dest: space_not_special)

lemma debug_info_match_blank: "is_space c \<Longrightarrow> debug_info_match (c # cs) = None"
  by (auto simp: debug_info_match_def dest: space_not_special)

lemma remove_debug_info_blank: "blank s \<Longrightarrow> remove_debug_info s = s"
  by (induction s) (simp_all add: blank_Cons debug_info_match_blank)

lemma label_match_blank: "blank s \<Longrightarrow> label_match s = None"
  by (cases s) (simp_all add: label_match_def blank_Cons space_not_alpha)

lemma sub_word_from_blank: "blank s \<Longrightarrow> sub_word_from original repl False s = s"
  by (induction s) (simp_all add: blank_Cons word_match_def next_is_word_def space_not_word)

lemma replace_label_references_blank:
  "blank s \<Longrightarrow> replace_label_references lmap s = s"
  by (induction lmap) (auto simp: replace_label_references_def sub_word_def sub_word_from_blank)

lemma normalize_labels_blank:
  "blank s \<Longrightarrow> normalize_labels s counter lmap = (s, counter, lmap)"
  by (simp add: normalize_labels_def replace_label_def label_match_blank
      replace_label_references_blank)

lemma temp_var_match_blank: "is_space c \<Longrightarrow> temp_var_match (c # cs) = None"
  by (auto simp: temp_var_match_def dest: space_not_special split: list.splits)

lemma normalize_temp_vars_blank:
  "blank s \<Longrightarrow> normalize_temp_vars s counter vmap = (s, counter, vmap)"
  by (induction s) (simp_all add: blank_Cons temp_var_match_blank)

lemma blank_dropWhile: "blank s \<Longrightarrow> blank (dropWhile P s)"
  using set_dropWhileD [of _ P s] by (auto simp: blank_def)

lemma collapse_whitespace_blank: "blank s \<Longrightarrow> blank (collapse_whitespace s)"
proof (induction s rule: collapse_whitespace.induct)
  case 1
  show ?case by (simp add: blank_def)
next
  case (2 c cs)
  from "2.prems" have c: "is_space c" and cs: "blank cs" by (simp_all add: blank_Cons)
  from "2.IH"(1) [OF c blank_dropWhile [OF cs]] c show ?case
    by (simp add: blank_Cons space_is_space)
qed

lemma normalize_whitespace_blank: "blank s \<Longrightarrow> normalize_whitespace s = []"
  by (simp add: normalize_whitespace_def strip_eq_Nil_iff collapse_whitespace_blank)

lemma apply_whitespace_blank: "blank s \<Longrightarrow> strip (apply_whitespace cfg s) = []"
  by (simp add: apply_whitespace_def normalize_whitespace_blank strip_eq_Nil_iff)
     (simp add: blank_def)

lemma normalize_line_blank:
  assumes "strip line = []"
  shows "normalize_line cfg st line = st"
proof -
  from assms have b: "blank line" by (simp add: strip_eq_Nil_iff)
  have m: "\<not> metadata_match (strip line)" by (simp add: assms metadata_match_def)
  have l: "apply_labels cfg (apply_debug_info cfg (apply_comments cfg line))
             (label_counter st) (label_map st) = (line, label_counter st, label_map st)"
    using b by (simp add: apply_labels_def apply_debug_info_def apply_comments_def
        remove_comments_blank remove_debug_info_blank normalize_labels_blank)
  have t: "apply_temp_vars cfg line (temp_var_counter st) (temp_var_map st)
             = (line, temp_var_counter st, temp_var_map st)"
    using b by (simp add: apply_temp_vars_def normalize_temp_vars_blank)
  show ?thesis
    by (simp add: normalize_line_def m l t apply_whitespace_blank [OF b])
qed

lemma apply_ignore_empty_lines:
  "apply_comments (cfg\<lparr>ignore_empty_lines := b\<rparr>) = apply_comments cfg"
  "apply_debug_info (cfg\<lparr>ignore_empty_lines := b\<rparr>) = apply_debug_info cfg"
  "apply_labels (cfg\<lparr>ignore_empty_lines := b\<rparr>) = apply_labels cfg"
  "apply_temp_vars (cfg\<lparr>ignore_empty_lines := b\<rparr>) = apply_temp_vars cfg"
  "apply_whitespace (cfg\<lparr>ignore_empty_lines := b\<rparr>) = apply_whitespace cfg"
  by (simp_all add: fun_eq_iff apply_labels_def apply_debug_info_def apply_comments_def
      apply_temp_vars_def apply_whitespace_def)

lemma normalize_line_ignore_empty_lines:
  "normalize_line (cfg\<lparr>ignore_empty_lines := b\<rparr>) st line = normalize_line cfg st line"
proof (cases "strip line = []")
  case True
  then show ?thesis by (simp add: normalize_line_blank)
next
  case False
  then show ?thesis
    by (simp add: normalize_line_def apply_ignore_empty_lines cong: if_cong split: prod.splits)
qed

lemma normalize_lines_ignore_empty_lines:
  "normalize_lines (cfg\<lparr>ignore_empty_lines := b\<rparr>) text = normalize_lines cfg text"
proof -
  have "normalize_line (cfg\<lparr>ignore_empty_lines := b\<rparr>) = normalize_line cfg"
    by (intro ext) (rule normalize_line_ignore_empty_lines)
  then show ?thesis by (simp add: normalize_lines_def)
qed

lemma normalize_line_nonblank:
  "\<forall>l \<in> set (normalized_lines st). strip l \<noteq> [] \<Longrightarrow>
   \<forall>l \<in> set (normalized_lines (normalize_line cfg st line)). strip l \<noteq> []"
  by (auto simp: normalize_line_def split: prod.splits if_splits)

lemma normalize_foldl_nonblank:
  "\<forall>l \<in> set (normalized_lines st). strip l \<noteq> [] \<Longrightarrow>
   \<forall>l \<in> set (normalized_lines (foldl (normalize_line cfg) st ls)). strip l \<noteq> []"
proof (induction ls arbitrary: st)
  case Nil
  then show ?case by simp
next
  case (Cons a ls)
  from Cons.IH [OF normalize_line_nonblank [OF Cons.prems]] show ?case by simp
qed

text \<open>
  Claim C8, as the code has it. Whether the option to drop blank lines is enabled or
  disabled, no blank line of the input is preserved: the output with the option disabled
  is the output with it enabled, and no line of the output is blank. A line that is blank
  after the enabled transformations is dropped by the last test of the loop body, and a
  blank input line stays blank through all of them.
\<close>

theorem blank_lines_always_dropped:
  "normalize (cfg\<lparr>ignore_empty_lines := False\<rparr>) text
     = normalize (cfg\<lparr>ignore_empty_lines := True\<rparr>) text
   \<and> (\<forall>l \<in> set (normalize_lines cfg text). strip l \<noteq> [])"
proof
  show "normalize (cfg\<lparr>ignore_empty_lines := False\<rparr>) text
     = normalize (cfg\<lparr>ignore_empty_lines := True\<rparr>) text"
    by (simp add: normalize_def normalize_lines_ignore_empty_lines)
  show "\<forall>l \<in> set (normalize_lines cfg text). strip l \<noteq> []"
    unfolding normalize_lines_def
    by (rule normalize_foldl_nonblank) (simp add: init_normalize_state_def)
qed

theorem blank_lines_always_dropped_witness:
  "normalize (no_normalization\<lparr>ignore_empty_lines := False\<rparr>) ''a\<newline>\<newline>  \<newline>b''
     = normalize (no_normalization\<lparr>ignore_empty_lines := True\<rparr>) ''a\<newline>\<newline>  \<newline>b''
   \<and> normalize_lines no_normalization ''a\<newline>\<newline>  \<newline>b'' = [''a'', ''b'']
   \<and> strip ''a'' \<noteq> [] \<and> strip ''b'' \<noteq> []"
proof -
  have e: "normalize_lines no_normalization ''a\<newline>\<newline>  \<newline>b'' = [''a'', ''b'']"
    by code_simp
  from blank_lines_always_dropped [of no_normalization "''a\<newline>\<newline>  \<newline>b''"] e
  show ?thesis by simp
qed

text \<open>
  Claim C8, as stated, fails: with every option disabled, the drop-blank-lines option among
  them, the blank second line of a three-line text is not in the output.
\<close>

theorem blank_line_dropped_when_option_disabled_counterexample:
  "\<not> ignore_empty_lines no_normalization
   \<and> split_on (CHR 0x0A) ''a\<newline>\<newline>b'' = [''a'', [], ''b'']
   \<and> normalize_lines no_normalization ''a\<newline>\<newline>b'' = [''a'', ''b'']
   \<and> normalize no_normalization ''a\<newline>\<newline>b'' = ''a\<newline>b''"
  by code_simp





























text \<open>
  Claim C4 at two blocks that differ by the name of one temporary value, \<open>%call.i\<close> against
  \<open>%call.j\<close>, and at two blocks that differ by the names of their two labels: the normal
  forms differ. The pattern takes \<open>%call.\<close> and leaves the letter behind it, and the label
  \<open>label_1\<close> of the input is taken for the canonical label of the second block.
\<close>

theorem renamed_blocks_normalize_differently:
  "normalize default_config ''%call.i = add i32 %x, 1'' = ''%temp_0i = add i32 %temp_1, 1''
   \<and> normalize default_config ''%call.j = add i32 %x, 1'' = ''%temp_0j = add i32 %temp_1, 1''
   \<and> normalize default_config ''%1 = add i32 %x, 1'' = ''%1 = add i32 %temp_0, 1''
   \<and> normalize default_config ''%2 = add i32 %x, 1'' = ''%2 = add i32 %temp_0, 1''
   \<and> normalize default_config ''label_1:\<newline>x:'' = ''label_0:\<newline>label_0:''
   \<and> normalize default_config ''p:\<newline>q:'' = ''label_0:\<newline>label_1:''"
  by code_simp

text \<open>
  Claim C5 at the line \<open>%call.i = add i32 %x, 1\<close>: the normal form holds the token
  \<open>%temp_0i\<close>, which a second normalization renames to \<open>%temp_0\<close>.
\<close>

theorem normalize_twice_differs:
  "normalize default_config ''%call.i = add i32 %x, 1'' = ''%temp_0i = add i32 %temp_1, 1''
   \<and> normalize default_config (normalize default_config ''%call.i = add i32 %x, 1'')
       = ''%temp_0 = add i32 %temp_1, 1''"
  by code_simp

section \<open>Properties of the header scanner and the content extractor\<close>

text \<open>
  Claim C3 at a text of one header and two lines: the record of the last header stops one
  line before the end of the input, so the second line is in no record.
\<close>

theorem last_record_misses_final_line:
  "extract_legacy_dumps ''*** IR Dump After Foo Pass (foo) ***\<newline>line1\<newline>line2\<newline>'' ''out''
     = [(\<lparr>pass_name = ''foo'', pass_index = 0, file_path = ''out/000_foo.ll''\<rparr>,
         ''line1\<newline>'')]
   \<and> extract_npm_dumps ''; *** IR Dump After FooPass on bar ***\<newline>line1\<newline>'' ''out''
     = [(\<lparr>pass_name = ''FooPass'', pass_index = 0, file_path = ''out/000_FooPass_bar.ll''\<rparr>,
         [])]"
  by code_simp

text \<open>
  Claim C7 at a banner after two spaces: the legacy scanner finds the header, with the
  name of the line without the spaces; the NPM scanner finds none, although it finds the
  header of the line without the spaces.
\<close>

theorem npm_banner_after_whitespace_not_recognized:
  "find_npm_headers [''  ; *** IR Dump After InstCombinePass on foo ***\<newline>''] = []
   \<and> find_npm_headers [''; *** IR Dump After InstCombinePass on foo ***\<newline>'']
       = [\<lparr>ParsedHeader.pass_name = ''InstCombinePass'',
            original_line = ''; *** IR Dump After InstCombinePass on foo ***'',
            line_number = 1, dump_type = ''function'', target = ''foo''\<rparr>]
   \<and> map ParsedHeader.pass_name
         (find_legacy_headers [''  # *** IR Dump After Combine instructions (instcombine) ***\<newline>''])
       = [''instcombine'']
   \<and> map ParsedHeader.pass_name
         (find_legacy_headers [''*** IR Dump After Combine instructions (instcombine) ***\<newline>''])
       = [''instcombine'']"
  by code_simp

end
